theory Spec2Isabelle
  imports Main
begin

section \<open>The dbt rental-property DAG (dags/dbt\_rental\_property\_dag.py)\<close>

text \<open>
  The DAG file holds three branch callables (\<open>check_schema_changes\<close>,
  \<open>check_late_arrivals\<close>, \<open>check_source_freshness\<close>), the shell template of the task
  \<open>fct_daily_listing_performance\<close>, and the wiring of the tasks. The callables run an
  external process and then decide; the model takes what the process left behind (its
  \<open>CompletedProcess\<close>, and for the freshness check the file \<open>target/sources.json\<close>)
  as input, and the XCom store as explicit state.
\<close>

subsection \<open>Python strings\<close>

text \<open>\<open>needle in haystack\<close> on Python strings: some suffix of the haystack starts with the needle.\<close>

fun starts_with :: "string \<Rightarrow> string \<Rightarrow> bool" where
  "starts_with [] s = True"
| "starts_with (p # ps) [] = False"
| "starts_with (p # ps) (c # cs) = (p = c \<and> starts_with ps cs)"

fun py_in :: "string \<Rightarrow> string \<Rightarrow> bool" where
  "py_in sub [] = starts_with sub []"
| "py_in sub (c # cs) = (starts_with sub (c # cs) \<or> py_in sub cs)"

subsection \<open>The result of \<open>subprocess.run\<close>\<close>

record completed_process =
  returncode :: int
  stdout :: string
  stderr :: string

subsection \<open>JSON values, as \<open>json.load\<close> returns them\<close>

text \<open>
  A float is kept as the text of its literal: no decision of the DAG computes with one.
  A \<open>JObj\<close> lists the items of the Python dict; a key is looked up with \<open>map_of\<close>.
\<close>

datatype json =
    JNull
  | JBool bool
  | JInt int
  | JFloat string
  | JStr string
  | JArr "json list"
  | JObj "(string \<times> json) list"

subsection \<open>The XCom store\<close>

text \<open>
  The dict \<open>freshness_results\<close> of \<open>check_source_freshness\<close> and the dict \<open>source_info\<close>
  it collects per source.
\<close>

record source_info =
  name :: string
  max_loaded_at :: json
  status :: json

record freshness_results =
  passed :: "source_info list"
  warned :: "source_info list"
  errored :: "source_info list"
  runtime_error :: "string option"

datatype xvalue =
    XStr string
  | XBool bool
  | XInt int
  | XFreshness freshness_results

text \<open>
  An XCom entry belongs to the task instance that pushed it and to a key.
  \<open>ti.xcom_push\<close> stores the value under the pushing task's id (a later push to the same
  key replaces it); \<open>ti.xcom_pull(key, task_ids)\<close> gives the value, or Python's \<open>None\<close>
  when the named task pushed nothing under the key.
\<close>

type_synonym xcom = "string \<times> string \<rightharpoonup> xvalue"

definition xcom_push :: "string \<Rightarrow> string \<Rightarrow> xvalue \<Rightarrow> xcom \<Rightarrow> xcom" where
  "xcom_push ti key v x = x((ti, key) \<mapsto> v)"

definition xcom_pull :: "string \<Rightarrow> string \<Rightarrow> xcom \<Rightarrow> xvalue option" where
  "xcom_pull key task_ids x = x (task_ids, key)"

subsection \<open>\<open>check_schema_changes\<close> (lines 69--96)\<close>

definition check_schema_changes :: "completed_process \<Rightarrow> string \<Rightarrow> xcom \<Rightarrow> string \<times> xcom" where
  "check_schema_changes result ti x =
     (let output = stdout result @ stderr result in
      if py_in ''SCHEMA CHANGE DETECTED'' output
      then (''schema_changed'', xcom_push ti ''refresh_strategy'' (XStr ''full_refresh'') x)
      else (''schema_unchanged'', xcom_push ti ''refresh_strategy'' (XStr ''incremental'') x))"

subsection \<open>\<open>check_late_arrivals\<close> (lines 99--126)\<close>

datatype value_error = ValueError

text \<open>
  The pattern is the raw string \<open>r'LATE_ARRIVAL_COUNT=(\\d+)'\<close>: in a raw string the two
  backslashes stay two characters, so the regular expression is the literal text
  \<open>LATE_ARRIVAL_COUNT=\<close>, then an escaped (literal) backslash, then one or more letters
  \<open>d\<close>; group 1 is the backslash and the (greedy) run of \<open>d\<close>s.
\<close>

definition backslash :: char where
  "backslash = CHR 0x5C"

fun strip_prefix :: "string \<Rightarrow> string \<Rightarrow> string option" where
  "strip_prefix [] s = Some s"
| "strip_prefix (p # ps) [] = None"
| "strip_prefix (p # ps) (c # cs) = (if p = c then strip_prefix ps cs else None)"

definition match_at :: "string \<Rightarrow> string option" where
  "match_at s =
     (case strip_prefix ''LATE_ARRIVAL_COUNT='' s of
        None \<Rightarrow> None
      | Some rest \<Rightarrow>
          (case rest of
             [] \<Rightarrow> None
           | c # cs \<Rightarrow>
               (let ds = takeWhile (\<lambda>d. d = CHR ''d'') cs in
                if c = backslash \<and> ds \<noteq> [] then Some (c # ds) else None)))"

text \<open>\<open>re.search\<close>: the leftmost position where the pattern matches; the result is group 1.\<close>

fun re_search :: "string \<Rightarrow> string option" where
  "re_search [] = match_at []"
| "re_search (c # cs) =
     (case match_at (c # cs) of Some g \<Rightarrow> Some g | None \<Rightarrow> re_search cs)"

text \<open>
  \<open>int(s)\<close> on a string: surrounding whitespace is dropped, one sign is allowed, then
  decimal digits, single underscores allowed between digits; anything else raises
  \<open>ValueError\<close>. (The bound that recent interpreters put on the number of digits is left
  out; the DAG calls \<open>int\<close> on group 1 only.)
\<close>

definition is_digit :: "char \<Rightarrow> bool" where
  "is_digit c = (c \<in> set ''0123456789'')"

definition is_space :: "char \<Rightarrow> bool" where
  "is_space c = (c \<in> {CHR '' '', CHR 0x09, CHR 0x0A, CHR 0x0B, CHR 0x0C, CHR 0x0D})"

definition digit_val :: "char \<Rightarrow> int" where
  "digit_val c = int (of_char c) - 48"

fun int_digits :: "string \<Rightarrow> int \<Rightarrow> int option" where
  "int_digits [] acc = Some acc"
| "int_digits (c # cs) acc =
     (if is_digit c then int_digits cs (10 * acc + digit_val c)
      else if c = CHR ''_'' then
        (case cs of
           [] \<Rightarrow> None
         | d # ds \<Rightarrow> if is_digit d then int_digits cs acc else None)
      else None)"

definition int_unsigned :: "string \<Rightarrow> int option" where
  "int_unsigned s =
     (case s of
        [] \<Rightarrow> None
      | c # cs \<Rightarrow> if is_digit c then int_digits s 0 else None)"

definition py_strip :: "string \<Rightarrow> string" where
  "py_strip s = rev (dropWhile is_space (rev (dropWhile is_space s)))"

definition py_int :: "string \<Rightarrow> value_error + int" where
  "py_int s =
     (let t = py_strip s;
          r = (case t of
                 [] \<Rightarrow> None
               | c # cs \<Rightarrow>
                   if c = CHR ''-'' then map_option uminus (int_unsigned cs)
                   else if c = CHR ''+'' then int_unsigned cs
                   else int_unsigned t)
      in case r of None \<Rightarrow> Inl ValueError | Some n \<Rightarrow> Inr n)"

text \<open>Lines 120--126: the two pushes and the branch, for the count the parse gave.\<close>

definition late_arrivals_branch :: "int \<Rightarrow> string \<Rightarrow> xcom \<Rightarrow> string \<times> xcom" where
  "late_arrivals_branch late_count ti x =
     (let x1 = xcom_push ti ''late_arrivals_detected'' (XBool (late_count > 0)) x;
          x2 = xcom_push ti ''late_arrival_count'' (XInt late_count) x1
      in if late_count > 0 then (''late_arrivals_detected'', x2)
         else (''late_arrivals_clean'', x2))"

text \<open>Lines 113--119: \<open>late_count\<close> stays 0 without a match; \<open>int\<close> may raise.\<close>

definition parse_late_count :: "string \<Rightarrow> value_error + int" where
  "parse_late_count output =
     (case re_search output of
        None \<Rightarrow> Inr 0
      | Some g \<Rightarrow> py_int g)"

definition check_late_arrivals ::
  "completed_process \<Rightarrow> string \<Rightarrow> xcom \<Rightarrow> value_error + string \<times> xcom" where
  "check_late_arrivals result ti x =
     (let output = stdout result @ stderr result in
      case parse_late_count output of
        Inl e \<Rightarrow> Inl e
      | Inr late_count \<Rightarrow> Inr (late_arrivals_branch late_count ti x))"

subsection \<open>\<open>check_source_freshness\<close> (lines 129--200)\<close>

text \<open>
  What the \<open>try\<close> block can raise, each with the text \<open>str(e)\<close> gives: a value without
  \<open>.get\<close>, a value that cannot be iterated, and whatever \<open>open\<close> or \<open>json.load\<close> raise on
  the file (its text is then part of the input).
\<close>

datatype py_exception =
    AttributeError string
  | TypeError string
  | LoadFailure string

fun str_exc :: "py_exception \<Rightarrow> string" where
  "str_exc (AttributeError m) = m"
| "str_exc (TypeError m) = m"
| "str_exc (LoadFailure m) = m"

text \<open>The file \<open>target/sources.json\<close> after the probe: absent, not loadable, or loaded.\<close>

datatype artifact =
    NoFile
  | Unreadable string
  | Loaded json

fun py_type :: "json \<Rightarrow> string" where
  "py_type JNull = ''NoneType''"
| "py_type (JBool b) = ''bool''"
| "py_type (JInt i) = ''int''"
| "py_type (JFloat f) = ''float''"
| "py_type (JStr s) = ''str''"
| "py_type (JArr xs) = ''list''"
| "py_type (JObj d) = ''dict''"

definition no_get :: "json \<Rightarrow> py_exception" where
  "no_get v = AttributeError ([CHR 0x27] @ py_type v @ [CHR 0x27] @ '' object has no attribute '' @
                [CHR 0x27] @ ''get'' @ [CHR 0x27])"

definition not_iterable :: "json \<Rightarrow> py_exception" where
  "not_iterable v = TypeError ([CHR 0x27] @ py_type v @ [CHR 0x27] @ '' object is not iterable'')"

definition dict_get :: "(string \<times> json) list \<Rightarrow> string \<Rightarrow> json \<Rightarrow> json" where
  "dict_get d k dflt = (case map_of d k of None \<Rightarrow> dflt | Some v \<Rightarrow> v)"

text \<open>
  What a \<open>for\<close> loop runs over: the elements of a list, the keys of a dict, the
  characters of a string; any other JSON value raises \<open>TypeError\<close>.
\<close>

fun iter_of :: "json \<Rightarrow> py_exception + json list" where
  "iter_of (JArr xs) = Inr xs"
| "iter_of (JObj d) = Inr (map (\<lambda>kv. JStr (fst kv)) d)"
| "iter_of (JStr s) = Inr (map (\<lambda>c. JStr [c]) s)"
| "iter_of v = Inl (not_iterable v)"

text \<open>
  Lines 171--186, the body of the loop: the three \<open>.get\<close> calls (an element that is no
  dict has no \<open>.get\<close>), the dict \<open>source_info\<close>, and the append by status. The name
  is the f-string of \<open>unique_id\<close>, that is Python's \<open>str\<close> of a JSON value; \<open>str\<close> is
  the parameter \<open>py_str\<close>.
\<close>

definition status_of :: "(string \<times> json) list \<Rightarrow> json" where
  "status_of d = dict_get d ''status'' (JStr ''unknown'')"

definition source_info_of :: "(json \<Rightarrow> string) \<Rightarrow> (string \<times> json) list \<Rightarrow> source_info" where
  "source_info_of py_str d =
     \<lparr>name = py_str (dict_get d ''unique_id'' (JStr ''unknown'')),
      max_loaded_at = dict_get d ''max_loaded_at'' (JStr ''N/A''),
      status = status_of d\<rparr>"

definition source_step ::
  "(json \<Rightarrow> string) \<Rightarrow> json \<Rightarrow> freshness_results \<Rightarrow> py_exception + freshness_results" where
  "source_step py_str source fr =
     (case source of
        JObj d \<Rightarrow>
          (let source_info = source_info_of py_str d in
           Inr (if status_of d = JStr ''pass'' then fr\<lparr>passed := passed fr @ [source_info]\<rparr>
                else if status_of d = JStr ''warn'' then fr\<lparr>warned := warned fr @ [source_info]\<rparr>
                else if status_of d = JStr ''error'' then fr\<lparr>errored := errored fr @ [source_info]\<rparr>
                else fr))
      | _ \<Rightarrow> Inl (no_get source))"

text \<open>
  The loop of line 170. An exception ends it; what was appended before stays in the
  dict, which lives outside the \<open>try\<close>.
\<close>

fun for_sources ::
  "(json \<Rightarrow> string) \<Rightarrow> json list \<Rightarrow> freshness_results \<Rightarrow> py_exception option \<times> freshness_results" where
  "for_sources py_str [] fr = (None, fr)"
| "for_sources py_str (source # rest) fr =
     (case source_step py_str source fr of
        Inl e \<Rightarrow> (Some e, fr)
      | Inr fr' \<Rightarrow> for_sources py_str rest fr')"

text \<open>Lines 165--186, the body of the \<open>try\<close>: the exception raised, if any, and the dict.\<close>

definition read_artifact ::
  "(json \<Rightarrow> string) \<Rightarrow> artifact \<Rightarrow> freshness_results \<Rightarrow> py_exception option \<times> freshness_results" where
  "read_artifact py_str art fr =
     (case art of
        NoFile \<Rightarrow> (None, fr)
      | Unreadable m \<Rightarrow> (Some (LoadFailure m), fr)
      | Loaded sources_data \<Rightarrow>
          (case sources_data of
             JObj d \<Rightarrow>
               (case iter_of (dict_get d ''results'' (JArr [])) of
                  Inl e \<Rightarrow> (Some e, fr)
                | Inr sources \<Rightarrow> for_sources py_str sources fr)
           | _ \<Rightarrow> (Some (no_get sources_data), fr)))"

definition empty_results :: freshness_results where
  "empty_results = \<lparr>passed = [], warned = [], errored = [], runtime_error = None\<rparr>"

definition check_source_freshness ::
  "(json \<Rightarrow> string) \<Rightarrow> completed_process \<Rightarrow> artifact \<Rightarrow> string \<Rightarrow> xcom \<Rightarrow> string \<times> xcom" where
  "check_source_freshness py_str result art ti x =
     (if returncode result \<noteq> 0 \<and> py_in ''Runtime Error'' (stderr result) then
        (''source_freshness_failed'',
         xcom_push ti ''freshness_results''
           (XFreshness (empty_results\<lparr>runtime_error := Some (stderr result)\<rparr>)) x)
      else
        (let r = read_artifact py_str art empty_results;
             freshness_results =
               (case fst r of
                  None \<Rightarrow> snd r
                | Some e \<Rightarrow> (snd r)\<lparr>runtime_error := Some (str_exc e)\<rparr>);
             x' = xcom_push ti ''freshness_results'' (XFreshness freshness_results) x
         in if errored freshness_results \<noteq> [] then (''source_freshness_failed'', x')
            else if warned freshness_results \<noteq> [] then (''source_freshness_warning'', x')
            else (''source_freshness_passed'', x')))"

subsection \<open>The command of \<open>fct_daily_listing_performance\<close> (lines 500--513)\<close>

text \<open>
  The template renders each pulled value with Python's \<open>str\<close>: a string as itself, a bool
  as \<open>True\<close> or \<open>False\<close>, an int in decimal, \<open>None\<close> as \<open>None\<close>. The rendering of a dict
  (the freshness results, which this task never pulls) is not modelled.
\<close>

fun nat_digits :: "nat \<Rightarrow> string" where
  "nat_digits n =
     (if n < 10 then [char_of (48 + n)]
      else nat_digits (n div 10) @ [char_of (48 + n mod 10)])"

declare nat_digits.simps [simp del]

definition int_str :: "int \<Rightarrow> string" where
  "int_str i = (if i < 0 then CHR ''-'' # nat_digits (nat (- i)) else nat_digits (nat i))"

fun render :: "xvalue option \<Rightarrow> string option" where
  "render None = Some ''None''"
| "render (Some (XStr s)) = Some s"
| "render (Some (XBool b)) = Some (if b then ''True'' else ''False'')"
| "render (Some (XInt i)) = Some (int_str i)"
| "render (Some (XFreshness fr)) = None"

text \<open>
  The rendered text stands between double quotes in the script. The shell takes it as
  it is unless it holds one of the characters that stay special there (dollar,
  backquote, double quote, backslash); for such a text, as for a value whose rendering
  is not modelled, the model gives no answer (\<open>None\<close>).
\<close>

definition shell_plain :: "string \<Rightarrow> bool" where
  "shell_plain s = (\<not> list_ex (\<lambda>c. c \<in> {CHR ''$'', CHR 0x60, CHR 0x22, backslash}) s)"

definition shell_var :: "xvalue option \<Rightarrow> string option" where
  "shell_var v =
     (case render v of
        None \<Rightarrow> None
      | Some s \<Rightarrow> if shell_plain s then Some s else None)"

datatype refresh_variant = FullRefresh | Incremental

definition fct_daily :: "xcom \<Rightarrow> refresh_variant option" where
  "fct_daily x =
     (case shell_var (xcom_pull ''refresh_strategy'' ''check_schema_changes'' x) of
        None \<Rightarrow> None
      | Some SCHEMA_STRATEGY \<Rightarrow>
          (case shell_var (xcom_pull ''late_arrivals_detected'' ''check_late_arrivals'' x) of
             None \<Rightarrow> None
           | Some LATE_ARRIVALS \<Rightarrow>
               if SCHEMA_STRATEGY = ''full_refresh'' \<or> LATE_ARRIVALS = ''True''
               then Some FullRefresh else Some Incremental))"

subsection \<open>The tasks and their wiring (lines 277--329, 415--474, 590--613)\<close>

text \<open>
  The edges between single tasks, in the order the file declares them. The edges that
  enter or leave a task group (lines 599, 600 and 613) and the edges inside the groups
  are not listed: none of them leaves a branch task or enters a join task.
\<close>

definition edges :: "(string \<times> string) list" where
  "edges =
     [(''start'', ''check_source_freshness''),
      (''check_source_freshness'', ''source_freshness_passed''),
      (''check_source_freshness'', ''source_freshness_warning''),
      (''check_source_freshness'', ''source_freshness_failed''),
      (''source_freshness_passed'', ''freshness_check_complete''),
      (''source_freshness_warning'', ''freshness_check_complete''),
      (''freshness_check_complete'', ''dbt_deps''),
      (''dbt_deps'', ''dbt_debug''),
      (''check_late_arrivals'', ''late_arrivals_detected''),
      (''check_late_arrivals'', ''late_arrivals_clean''),
      (''late_arrivals_detected'', ''late_arrivals_check_complete''),
      (''late_arrivals_clean'', ''late_arrivals_check_complete''),
      (''late_arrivals_check_complete'', ''check_schema_changes''),
      (''check_schema_changes'', ''schema_changed''),
      (''check_schema_changes'', ''schema_unchanged''),
      (''schema_changed'', ''schema_check_complete''),
      (''schema_unchanged'', ''schema_check_complete'')]"

definition upstream_of :: "string \<Rightarrow> string list" where
  "upstream_of t = map fst (filter (\<lambda>e. snd e = t) edges)"

definition downstream_of :: "string \<Rightarrow> string list" where
  "downstream_of t = map snd (filter (\<lambda>e. fst e = t) edges)"

datatype trigger_rule = AllSuccess | AllDone | NoneFailedMinOneSuccess

text \<open>The \<open>trigger_rule\<close> argument of each operator; a task that gives none has the default.\<close>

definition trigger_rule_of :: "string \<Rightarrow> trigger_rule" where
  "trigger_rule_of t =
     (if t = ''source_freshness_failed'' then AllDone
      else if t = ''freshness_check_complete'' then NoneFailedMinOneSuccess
      else if t = ''schema_check_complete'' then NoneFailedMinOneSuccess
      else if t = ''late_arrivals_check_complete'' then NoneFailedMinOneSuccess
      else AllSuccess)"

text \<open>
  A branch callable returns one string, the id of the task to follow. Of the tasks
  directly downstream of the branch task, the one with that id is followed and the
  others are skipped.
\<close>

definition followed :: "string \<Rightarrow> string \<Rightarrow> string list" where
  "followed task r = filter (\<lambda>t. t = r) (downstream_of task)"

definition skipped :: "string \<Rightarrow> string \<Rightarrow> string list" where
  "skipped task r = filter (\<lambda>t. t \<noteq> r) (downstream_of task)"

subsection \<open>The trigger-rule resolver\<close>

datatype task_status =
  PENDING | QUEUED | RUNNING | SUCCESS | FAILED | SKIPPED_BRANCH | SKIPPED_UPSTREAM

datatype verdict = Ready | NotYetReady | Blocked

fun is_skipped :: "task_status \<Rightarrow> bool" where
  "is_skipped SKIPPED_BRANCH = True"
| "is_skipped SKIPPED_UPSTREAM = True"
| "is_skipped s = False"

fun terminal :: "task_status \<Rightarrow> bool" where
  "terminal SUCCESS = True"
| "terminal FAILED = True"
| "terminal s = is_skipped s"

text \<open>
  Modelled from the spec: the evaluation of a trigger rule is not in the DAG file, which
  only names the rule of each task (\<open>trigger_rule_of\<close>). The definition follows section
  4.2 of the specification: \<open>AllSuccess\<close> is ready when every upstream is SUCCESS and
  blocked when one is FAILED or skipped; \<open>AllDone\<close> is ready when every upstream is
  terminal; \<open>NoneFailedMinOneSuccess\<close> is blocked when an upstream is FAILED, and
  otherwise ready when one is SUCCESS.
\<close>

fun ready :: "trigger_rule \<Rightarrow> task_status list \<Rightarrow> verdict" where
  "ready AllSuccess ups =
     (if list_all (\<lambda>s. s = SUCCESS) ups then Ready
      else if list_ex (\<lambda>s. s = FAILED \<or> is_skipped s) ups then Blocked
      else NotYetReady)"
| "ready AllDone ups = (if list_all terminal ups then Ready else NotYetReady)"
| "ready NoneFailedMinOneSuccess ups =
     (if list_ex (\<lambda>s. s = FAILED) ups then Blocked
      else if list_ex (\<lambda>s. s = SUCCESS) ups then Ready
      else NotYetReady)"

text \<open>
  Modelled from the spec: what the engine makes of a PENDING task, which is not in the
  DAG file either. Sections 4.5 and 8 of the specification: a ready task is queued to
  run; a blocked task becomes SKIPPED\_UPSTREAM; so does a task whose upstreams are all
  terminal without its rule being met; any other task stays PENDING.
\<close>

definition settle :: "trigger_rule \<Rightarrow> task_status list \<Rightarrow> task_status" where
  "settle rule ups =
     (case ready rule ups of
        Ready \<Rightarrow> QUEUED
      | Blocked \<Rightarrow> SKIPPED_UPSTREAM
      | NotYetReady \<Rightarrow> if list_all terminal ups then SKIPPED_UPSTREAM else PENDING)"

subsection \<open>Notions for stating the properties\<close>

text \<open>
  The count line the probe prints, \<open>LATE_ARRIVAL_COUNT=<integer>\<close>: the key followed by a
  decimal digit, somewhere in the text.
\<close>

definition count_line_at :: "string \<Rightarrow> bool" where
  "count_line_at s =
     (case strip_prefix ''LATE_ARRIVAL_COUNT='' s of
        None \<Rightarrow> False
      | Some rest \<Rightarrow> (case rest of [] \<Rightarrow> False | c # cs \<Rightarrow> is_digit c))"

fun has_count_line :: "string \<Rightarrow> bool" where
  "has_count_line [] = False"
| "has_count_line (c # cs) = (count_line_at (c # cs) \<or> has_count_line cs)"

text \<open>The \<open>source_info\<close> dicts of the sources that report a given status, in file order.\<close>

definition with_status ::
  "string \<Rightarrow> (json \<Rightarrow> string) \<Rightarrow> (string \<times> json) list list \<Rightarrow> source_info list" where
  "with_status s py_str ds =
     map (source_info_of py_str) (filter (\<lambda>d. status_of d = JStr s) ds)"

section \<open>Properties\<close>

subsection \<open>The XCom store, the pattern and the loop\<close>

lemma xcom_pull_push:
  "xcom_pull k t (xcom_push ti key v x) = (if t = ti \<and> k = key then Some v else xcom_pull k t x)"
  by (simp add: xcom_pull_def xcom_push_def)

lemma xcom_push_twice: "xcom_push ti key v (xcom_push ti key w x) = xcom_push ti key v x"
  by (simp add: xcom_push_def)

lemma shell_plain_consts:
  "shell_plain ''full_refresh''" "shell_plain ''incremental''"
  "shell_plain ''True''" "shell_plain ''False''" "shell_plain ''None''"
  by (simp_all add: shell_plain_def backslash_def)

lemma match_at_backslash: "match_at s = Some g \<Longrightarrow> \<exists>ds. g = backslash # ds"
  by (auto simp: match_at_def Let_def split: option.splits list.splits if_splits)

lemma re_search_backslash: "re_search s = Some g \<Longrightarrow> \<exists>ds. g = backslash # ds"
  by (induction s) (auto dest: match_at_backslash split: option.splits)

lemma py_strip_backslash:
  "py_strip (backslash # ds) = backslash # rev (dropWhile is_space (rev ds))"
  by (simp add: py_strip_def is_space_def backslash_def dropWhile_append3)

lemma py_int_backslash: "py_int (backslash # ds) = Inl ValueError"
  unfolding py_int_def py_strip_backslash
  by (simp add: int_unsigned_def is_digit_def backslash_def)

lemma parse_late_count_cases:
  "parse_late_count output = Inl ValueError \<or> parse_late_count output = Inr 0"
  by (auto simp: parse_late_count_def py_int_backslash dest!: re_search_backslash
      split: option.splits)

lemma check_late_arrivals_cases:
  "check_late_arrivals result ti x = Inl ValueError \<or>
   check_late_arrivals result ti x = Inr (late_arrivals_branch 0 ti x)"
  using parse_late_count_cases [of "stdout result @ stderr result"]
  by (auto simp: check_late_arrivals_def Let_def)

lemma for_sources_dicts:
  "for_sources f (map JObj ds) fr =
     (None, fr\<lparr>passed := passed fr @ with_status ''pass'' f ds,
               warned := warned fr @ with_status ''warn'' f ds,
               errored := errored fr @ with_status ''error'' f ds\<rparr>)"
  by (induction ds arbitrary: fr) (simp_all add: source_step_def with_status_def Let_def)

lemma with_status_empty: "with_status s f ds = [] \<longleftrightarrow> \<not> (\<exists>d\<in>set ds. status_of d = JStr s)"
  by (simp add: with_status_def filter_empty_conv)

lemma freshness_branch_cases:
  "fst (check_source_freshness f result art ti x) \<in>
     {''source_freshness_passed'', ''source_freshness_warning'', ''source_freshness_failed''}"
  by (simp add: check_source_freshness_def Let_def)

lemma schema_branch_cases:
  "fst (check_schema_changes result ti x) \<in> {''schema_changed'', ''schema_unchanged''}"
  by (simp add: check_schema_changes_def Let_def)

lemma late_branch_cases:
  "check_late_arrivals result ti x = Inr (b, x') \<Longrightarrow> b = ''late_arrivals_clean''"
  using check_late_arrivals_cases [of result ti x]
  by (auto simp: late_arrivals_branch_def Let_def)

subsection \<open>The refresh strategy of \<open>fct_daily_listing_performance\<close>\<close>

text \<open>
  C1. The schema decision writes \<open>refresh_strategy\<close> and the late-arrival decision
  writes \<open>late_arrivals_detected\<close> (lines 120--126, for any count \<open>n\<close>); on the store they
  leave, the command of \<open>fct_daily_listing_performance\<close> takes the full-refresh variant
  exactly when the schema decision chose \<open>schema_changed\<close> or the late-arrival decision
  chose \<open>late_arrivals_detected\<close>, and the incremental variant otherwise; the first is
  the case exactly when the marker is in the output, the second exactly when \<open>n > 0\<close>.
\<close>

theorem fct_daily_full_refresh_iff:
  "fct_daily (snd (check_schema_changes rs ''check_schema_changes''
                (snd (late_arrivals_branch n ''check_late_arrivals'' x)))) =
     Some (if fst (check_schema_changes rs ''check_schema_changes'' x1) = ''schema_changed''
              \<or> fst (late_arrivals_branch n ''check_late_arrivals'' x2) = ''late_arrivals_detected''
           then FullRefresh else Incremental)
   \<and> (fst (check_schema_changes rs ''check_schema_changes'' x1) = ''schema_changed''
        \<longleftrightarrow> py_in ''SCHEMA CHANGE DETECTED'' (stdout rs @ stderr rs))
   \<and> (fst (late_arrivals_branch n ''check_late_arrivals'' x2) = ''late_arrivals_detected''
        \<longleftrightarrow> 0 < n)"
  by (simp add: fct_daily_def shell_var_def check_schema_changes_def late_arrivals_branch_def
      Let_def xcom_pull_push shell_plain_consts)

theorem fct_daily_full_refresh_iff_witness:
  "fct_daily (snd (check_schema_changes \<lparr>returncode = 0, stdout = ''ok'', stderr = []\<rparr>
       ''check_schema_changes''
       (snd (late_arrivals_branch 0 ''check_late_arrivals'' Map.empty)))) = Some Incremental
   \<and> fct_daily (snd (check_schema_changes
         \<lparr>returncode = 0, stdout = ''SCHEMA CHANGE DETECTED'', stderr = []\<rparr>
         ''check_schema_changes''
         (snd (late_arrivals_branch 0 ''check_late_arrivals'' Map.empty)))) = Some FullRefresh
   \<and> fct_daily (snd (check_schema_changes \<lparr>returncode = 0, stdout = ''ok'', stderr = []\<rparr>
         ''check_schema_changes''
         (snd (late_arrivals_branch 3 ''check_late_arrivals'' Map.empty)))) = Some FullRefresh
   \<and> fct_daily (snd (check_schema_changes
         \<lparr>returncode = 0, stdout = ''SCHEMA CHANGE DETECTED'', stderr = []\<rparr>
         ''check_schema_changes''
         (snd (late_arrivals_branch 3 ''check_late_arrivals'' Map.empty)))) = Some FullRefresh"
  using
    fct_daily_full_refresh_iff
      [of "\<lparr>returncode = 0, stdout = ''ok'', stderr = []\<rparr>" 0 Map.empty Map.empty Map.empty]
    fct_daily_full_refresh_iff
      [of "\<lparr>returncode = 0, stdout = ''SCHEMA CHANGE DETECTED'', stderr = []\<rparr>" 0
          Map.empty Map.empty Map.empty]
    fct_daily_full_refresh_iff
      [of "\<lparr>returncode = 0, stdout = ''ok'', stderr = []\<rparr>" 3 Map.empty Map.empty Map.empty]
    fct_daily_full_refresh_iff
      [of "\<lparr>returncode = 0, stdout = ''SCHEMA CHANGE DETECTED'', stderr = []\<rparr>" 3
          Map.empty Map.empty Map.empty]
  by simp

text \<open>
  C2, as the claim states it, fails: with neither entry in the store the task raises
  nothing and takes the incremental variant.
\<close>

theorem fct_daily_missing_entries_counterexample:
  "xcom_pull ''refresh_strategy'' ''check_schema_changes'' Map.empty = None
   \<and> xcom_pull ''late_arrivals_detected'' ''check_late_arrivals'' Map.empty = None
   \<and> fct_daily Map.empty = Some Incremental"
  by (simp add: fct_daily_def shell_var_def xcom_pull_def shell_plain_consts)

text \<open>
  C2, amended. A missing entry is pulled as \<open>None\<close> and rendered as the text \<open>None\<close>. With
  both entries missing the task takes the incremental variant; with one missing, the
  other decides: \<open>late_arrivals_detected = True\<close> or \<open>refresh_strategy = full_refresh\<close> gives
  the full refresh, \<open>False\<close> or \<open>incremental\<close> the incremental variant.
\<close>

theorem fct_daily_missing_entry:
  "(xcom_pull ''refresh_strategy'' ''check_schema_changes'' x = None \<and>
    xcom_pull ''late_arrivals_detected'' ''check_late_arrivals'' x = None
      \<longrightarrow> fct_daily x = Some Incremental)
   \<and> (xcom_pull ''refresh_strategy'' ''check_schema_changes'' x = None \<and>
      xcom_pull ''late_arrivals_detected'' ''check_late_arrivals'' x = Some (XBool la)
      \<longrightarrow> fct_daily x = Some (if la then FullRefresh else Incremental))
   \<and> (xcom_pull ''refresh_strategy'' ''check_schema_changes'' x = Some (XStr s) \<and>
      (s = ''full_refresh'' \<or> s = ''incremental'') \<and>
      xcom_pull ''late_arrivals_detected'' ''check_late_arrivals'' x = None
      \<longrightarrow> fct_daily x = Some (if s = ''full_refresh'' then FullRefresh else Incremental))"
  by (auto simp: fct_daily_def shell_var_def shell_plain_consts)

theorem fct_daily_missing_entry_witness:
  "fct_daily Map.empty = Some Incremental
   \<and> fct_daily (xcom_push ''check_late_arrivals'' ''late_arrivals_detected'' (XBool True) Map.empty)
       = Some FullRefresh
   \<and> fct_daily (xcom_push ''check_schema_changes'' ''refresh_strategy'' (XStr ''incremental'') Map.empty)
       = Some Incremental"
  using fct_daily_missing_entry [of Map.empty]
    fct_daily_missing_entry
      [of "xcom_push ''check_late_arrivals'' ''late_arrivals_detected'' (XBool True) Map.empty" True]
    fct_daily_missing_entry
      [of "xcom_push ''check_schema_changes'' ''refresh_strategy'' (XStr ''incremental'') Map.empty"
          _ "''incremental''"]
  by (simp add: xcom_pull_push) (simp add: xcom_pull_def)

subsection \<open>The late-arrival count\<close>

text \<open>
  C3. The output \<open>LATE_ARRIVAL_COUNT=5\<close> holds a count line, yet the pattern of line 116
  finds no match in it (it asks for a backslash after the \<open>=\<close>): the count stays 0, and
  \<open>check_late_arrivals\<close> pushes \<open>False\<close> and 0 and returns \<open>late_arrivals_clean\<close>.
\<close>

theorem check_late_arrivals_count_5:
  "has_count_line ''LATE_ARRIVAL_COUNT=5''
   \<and> re_search ''LATE_ARRIVAL_COUNT=5'' = None
   \<and> check_late_arrivals \<lparr>returncode = 0, stdout = ''LATE_ARRIVAL_COUNT=5'', stderr = []\<rparr>
       ''check_late_arrivals'' Map.empty =
     Inr (''late_arrivals_clean'',
          [(''check_late_arrivals'', ''late_arrivals_detected'') \<mapsto> XBool False,
           (''check_late_arrivals'', ''late_arrival_count'') \<mapsto> XInt 0])"
  by (simp add: check_late_arrivals_def parse_late_count_def match_at_def late_arrivals_branch_def
      count_line_at_def is_digit_def xcom_push_def Let_def backslash_def)

subsection \<open>Output that carries no marker\<close>

text \<open>
  C4, as the claim states it, fails: on an output with neither the schema marker nor a
  count line, the two decisions take \<open>schema_unchanged\<close> and \<open>late_arrivals_clean\<close>, and
  push \<open>incremental\<close>, \<open>False\<close> and 0, nothing else.
\<close>

theorem unparsable_output_counterexample:
  "\<not> py_in ''SCHEMA CHANGE DETECTED'' ''garbage''
   \<and> check_schema_changes \<lparr>returncode = 1, stdout = ''garbage'', stderr = []\<rparr>
       ''check_schema_changes'' Map.empty =
       (''schema_unchanged'', [(''check_schema_changes'', ''refresh_strategy'') \<mapsto> XStr ''incremental''])
   \<and> \<not> has_count_line ''garbage''
   \<and> re_search ''garbage'' = None
   \<and> check_late_arrivals \<lparr>returncode = 1, stdout = ''garbage'', stderr = []\<rparr>
       ''check_late_arrivals'' Map.empty =
       Inr (''late_arrivals_clean'',
            [(''check_late_arrivals'', ''late_arrivals_detected'') \<mapsto> XBool False,
             (''check_late_arrivals'', ''late_arrival_count'') \<mapsto> XInt 0])"
  by (simp add: check_schema_changes_def check_late_arrivals_def parse_late_count_def match_at_def
      late_arrivals_branch_def count_line_at_def xcom_push_def Let_def backslash_def)

text \<open>
  C4, amended. Whenever the marker is not in the output, \<open>check_schema_changes\<close> returns
  \<open>schema_unchanged\<close> and pushes \<open>refresh_strategy = incremental\<close>. Whenever the output
  holds no count line, and the pattern of line 116 has no match in it either,
  \<open>check_late_arrivals\<close> returns \<open>late_arrivals_clean\<close> and pushes
  \<open>late_arrivals_detected = False\<close> and \<open>late_arrival_count = 0\<close>. The store changes at
  these keys only: no parse failure is recorded.
\<close>

theorem unparsable_output_takes_absent_branch:
  "(\<not> py_in ''SCHEMA CHANGE DETECTED'' (stdout result @ stderr result) \<longrightarrow>
      check_schema_changes result ti x =
        (''schema_unchanged'', xcom_push ti ''refresh_strategy'' (XStr ''incremental'') x))
   \<and> (\<not> has_count_line (stdout result @ stderr result) \<and>
      re_search (stdout result @ stderr result) = None \<longrightarrow>
      check_late_arrivals result ti x =
        Inr (''late_arrivals_clean'',
             xcom_push ti ''late_arrival_count'' (XInt 0)
               (xcom_push ti ''late_arrivals_detected'' (XBool False) x)))"
  by (simp add: check_schema_changes_def check_late_arrivals_def parse_late_count_def
      late_arrivals_branch_def Let_def)

theorem unparsable_output_takes_absent_branch_witness:
  "check_schema_changes \<lparr>returncode = 0, stdout = [], stderr = ''Traceback''\<rparr>
     ''check_schema_changes'' Map.empty =
     (''schema_unchanged'',
      xcom_push ''check_schema_changes'' ''refresh_strategy'' (XStr ''incremental'') Map.empty)
   \<and> check_late_arrivals \<lparr>returncode = 0, stdout = [], stderr = ''Traceback''\<rparr>
       ''check_late_arrivals'' Map.empty =
       Inr (''late_arrivals_clean'',
            xcom_push ''check_late_arrivals'' ''late_arrival_count'' (XInt 0)
              (xcom_push ''check_late_arrivals'' ''late_arrivals_detected'' (XBool False) Map.empty))"
proof -
  have a: "\<not> py_in ''SCHEMA CHANGE DETECTED''
             (stdout \<lparr>returncode = 0, stdout = [], stderr = ''Traceback''\<rparr> @
              stderr \<lparr>returncode = 0, stdout = [], stderr = ''Traceback''\<rparr>)"
    by simp
  have b: "\<not> has_count_line
             (stdout \<lparr>returncode = 0, stdout = [], stderr = ''Traceback''\<rparr> @
              stderr \<lparr>returncode = 0, stdout = [], stderr = ''Traceback''\<rparr>)"
    by (simp add: count_line_at_def)
  have c: "re_search
             (stdout \<lparr>returncode = 0, stdout = [], stderr = ''Traceback''\<rparr> @
              stderr \<lparr>returncode = 0, stdout = [], stderr = ''Traceback''\<rparr>) = None"
    by (simp add: match_at_def)
  from a b c
    unparsable_output_takes_absent_branch
      [of "\<lparr>returncode = 0, stdout = [], stderr = ''Traceback''\<rparr>" "''check_schema_changes''" Map.empty]
    unparsable_output_takes_absent_branch
      [of "\<lparr>returncode = 0, stdout = [], stderr = ''Traceback''\<rparr>" "''check_late_arrivals''" Map.empty]
  show ?thesis by blast
qed

subsection \<open>The freshness decision\<close>

text \<open>
  C5. When the probe did not end in the runtime-error return of lines 155--160 and the
  file holds a dict whose \<open>results\<close> are dicts \<open>ds\<close> (one per source), the decision returns
  \<open>source_freshness_failed\<close> exactly when some source has status \<open>error\<close>; otherwise
  \<open>source_freshness_warning\<close> exactly when some source has status \<open>warn\<close>; otherwise
  \<open>source_freshness_passed\<close>. The store it returns holds the payload under
  \<open>freshness_results\<close>: the sources by status, and no runtime error.
\<close>

theorem freshness_branch_by_worst_status:
  assumes "returncode result = 0 \<or> \<not> py_in ''Runtime Error'' (stderr result)"
      and "dict_get data ''results'' (JArr []) = JArr (map JObj ds)"
  shows "check_source_freshness f result (Loaded (JObj data)) ti x =
     (if \<exists>d\<in>set ds. status_of d = JStr ''error'' then ''source_freshness_failed''
      else if \<exists>d\<in>set ds. status_of d = JStr ''warn'' then ''source_freshness_warning''
      else ''source_freshness_passed'',
      xcom_push ti ''freshness_results''
        (XFreshness \<lparr>passed = with_status ''pass'' f ds, warned = with_status ''warn'' f ds,
                     errored = with_status ''error'' f ds, runtime_error = None\<rparr>) x)"
  using assms
  by (auto simp: check_source_freshness_def read_artifact_def for_sources_dicts empty_results_def
      with_status_empty Let_def)

theorem freshness_branch_by_worst_status_witness:
  "check_source_freshness (\<lambda>v. ''src'') \<lparr>returncode = 1, stdout = [], stderr = []\<rparr>
     (Loaded (JObj [(''results'',
        JArr (map JObj [[(''status'', JStr ''pass'')], [(''status'', JStr ''error'')]]))]))
     ''check_source_freshness'' Map.empty =
   (''source_freshness_failed'',
    xcom_push ''check_source_freshness'' ''freshness_results''
      (XFreshness \<lparr>passed = [\<lparr>name = ''src'', max_loaded_at = JStr ''N/A'', status = JStr ''pass''\<rparr>],
                   warned = [],
                   errored = [\<lparr>name = ''src'', max_loaded_at = JStr ''N/A'', status = JStr ''error''\<rparr>],
                   runtime_error = None\<rparr>) Map.empty)"
proof -
  have a: "returncode \<lparr>returncode = 1, stdout = [], stderr = []\<rparr> = 0 \<or>
           \<not> py_in ''Runtime Error'' (stderr \<lparr>returncode = 1, stdout = [], stderr = []\<rparr>)"
    by simp
  have b: "dict_get [(''results'',
        JArr (map JObj [[(''status'', JStr ''pass'')], [(''status'', JStr ''error'')]]))] ''results'' (JArr [])
      = JArr (map JObj [[(''status'', JStr ''pass'')], [(''status'', JStr ''error'')]])"
    by (simp add: dict_get_def)
  show ?thesis
    using freshness_branch_by_worst_status [OF a b, of "\<lambda>v. ''src''" "''check_source_freshness''" Map.empty]
    by (simp add: with_status_def status_of_def dict_get_def source_info_of_def)
qed

lemma source_step_runtime_error:
  "source_step f source fr = Inr fr' \<Longrightarrow> runtime_error fr' = runtime_error fr"
  by (auto simp: source_step_def Let_def split: json.splits if_splits)

lemma for_sources_runtime_error:
  "runtime_error (snd (for_sources f sources fr)) = runtime_error fr"
  by (induction sources arbitrary: fr)
     (auto split: sum.splits dest: source_step_runtime_error)

lemma read_artifact_runtime_error:
  "runtime_error (snd (read_artifact f art fr)) = runtime_error fr"
  by (auto simp: read_artifact_def for_sources_runtime_error split: artifact.splits json.splits sum.splits)

text \<open>
  C9. For every process result and every state of the file, \<open>check_source_freshness\<close>
  returns one of its three branch names and pushes a payload under \<open>freshness_results\<close>.
  The payload's \<open>runtime_error\<close> is the standard error of the process on the early
  return, and otherwise the text of the exception the \<open>try\<close> block raised, if it raised
  one: nothing for an absent file, the loader's message for a file that does not load.
\<close>

theorem check_source_freshness_total:
  "fst (check_source_freshness f result art ti x) \<in>
     {''source_freshness_passed'', ''source_freshness_warning'', ''source_freshness_failed''}
   \<and> (\<exists>fr. snd (check_source_freshness f result art ti x) =
              xcom_push ti ''freshness_results'' (XFreshness fr) x
          \<and> runtime_error fr =
              (if returncode result \<noteq> 0 \<and> py_in ''Runtime Error'' (stderr result)
               then Some (stderr result)
               else map_option str_exc (fst (read_artifact f art empty_results))))
   \<and> read_artifact f NoFile empty_results = (None, empty_results)
   \<and> read_artifact f (Unreadable m) empty_results = (Some (LoadFailure m), empty_results)
   \<and> str_exc (LoadFailure m) = m"
proof -
  have none: "runtime_error (snd (read_artifact f art empty_results)) = None"
    by (simp add: read_artifact_runtime_error empty_results_def)
  have snd_eq: "snd (check_source_freshness f result art ti x) =
      xcom_push ti ''freshness_results''
        (XFreshness
          (if returncode result \<noteq> 0 \<and> py_in ''Runtime Error'' (stderr result)
           then empty_results\<lparr>runtime_error := Some (stderr result)\<rparr>
           else (case fst (read_artifact f art empty_results) of
                   None \<Rightarrow> snd (read_artifact f art empty_results)
                 | Some e \<Rightarrow> (snd (read_artifact f art empty_results))
                              \<lparr>runtime_error := Some (str_exc e)\<rparr>))) x"
    by (simp add: check_source_freshness_def Let_def)
  have "runtime_error
          (if returncode result \<noteq> 0 \<and> py_in ''Runtime Error'' (stderr result)
           then empty_results\<lparr>runtime_error := Some (stderr result)\<rparr>
           else (case fst (read_artifact f art empty_results) of
                   None \<Rightarrow> snd (read_artifact f art empty_results)
                 | Some e \<Rightarrow> (snd (read_artifact f art empty_results))
                              \<lparr>runtime_error := Some (str_exc e)\<rparr>)) =
        (if returncode result \<noteq> 0 \<and> py_in ''Runtime Error'' (stderr result)
         then Some (stderr result)
         else map_option str_exc (fst (read_artifact f art empty_results)))"
    using none by (cases "fst (read_artifact f art empty_results)") simp_all
  with snd_eq have pushed: "\<exists>fr. snd (check_source_freshness f result art ti x) =
              xcom_push ti ''freshness_results'' (XFreshness fr) x
          \<and> runtime_error fr =
              (if returncode result \<noteq> 0 \<and> py_in ''Runtime Error'' (stderr result)
               then Some (stderr result)
               else map_option str_exc (fst (read_artifact f art empty_results)))"
    by blast
  have "read_artifact f NoFile empty_results = (None, empty_results)"
    and "read_artifact f (Unreadable m) empty_results = (Some (LoadFailure m), empty_results)"
    by (simp_all add: read_artifact_def)
  with pushed freshness_branch_cases [of f result art ti x] show ?thesis by simp
qed

theorem check_source_freshness_total_witness:
  "check_source_freshness (\<lambda>v. ''src'') \<lparr>returncode = 0, stdout = [], stderr = []\<rparr>
     (Unreadable ''Expecting value: line 1 column 1 (char 0)'') ''check_source_freshness'' Map.empty =
   (''source_freshness_passed'',
    xcom_push ''check_source_freshness'' ''freshness_results''
      (XFreshness \<lparr>passed = [], warned = [], errored = [],
                   runtime_error = Some ''Expecting value: line 1 column 1 (char 0)''\<rparr>) Map.empty)
   \<and> check_source_freshness (\<lambda>v. ''src'') \<lparr>returncode = 0, stdout = [], stderr = []\<rparr>
     (Loaded (JObj [(''results'', JArr [JObj [(''status'', JStr ''error'')], JInt 5])]))
     ''check_source_freshness'' Map.empty =
   (''source_freshness_failed'',
    xcom_push ''check_source_freshness'' ''freshness_results''
      (XFreshness \<lparr>passed = [], warned = [],
                   errored = [\<lparr>name = ''src'', max_loaded_at = JStr ''N/A'', status = JStr ''error''\<rparr>],
                   runtime_error = Some (CHR 0x27 # ''int'' @ CHR 0x27 # '' object has no attribute '' @
                     CHR 0x27 # ''get'' @ [CHR 0x27])\<rparr>) Map.empty)"
  using check_source_freshness_total [of "\<lambda>v. ''src''" "\<lparr>returncode = 0, stdout = [], stderr = []\<rparr>"
     "Unreadable ''Expecting value: line 1 column 1 (char 0)''" "''check_source_freshness''" Map.empty]
  by (simp add: check_source_freshness_def read_artifact_def source_step_def status_of_def
      source_info_of_def dict_get_def empty_results_def no_get_def Let_def)

text \<open>
  C10. A source whose status is none of \<open>pass\<close>, \<open>warn\<close>, \<open>error\<close> leaves the three lists
  as they are. When every source of the file is such a source (and the probe did not end
  in the runtime-error return), the decision returns \<open>source_freshness_passed\<close> and the
  payload it pushes has three empty lists.
\<close>

theorem unrecognized_status_in_no_list:
  assumes "\<forall>d\<in>set ds. status_of d \<notin> {JStr ''pass'', JStr ''warn'', JStr ''error''}"
      and "returncode result = 0 \<or> \<not> py_in ''Runtime Error'' (stderr result)"
      and "dict_get data ''results'' (JArr []) = JArr (map JObj ds)"
  shows "(\<forall>d\<in>set ds. \<forall>fr. source_step f (JObj d) fr = Inr fr)
     \<and> check_source_freshness f result (Loaded (JObj data)) ti x =
        (''source_freshness_passed'',
         xcom_push ti ''freshness_results'' (XFreshness empty_results) x)"
proof -
  have step: "\<forall>d\<in>set ds. \<forall>fr. source_step f (JObj d) fr = Inr fr"
    using assms(1) by (simp add: source_step_def Let_def)
  have "for_sources f (map JObj ds) fr = (None, fr)" for fr
    using step by (induction ds arbitrary: fr) simp_all
  with assms(2,3) step show ?thesis
    by (auto simp: check_source_freshness_def read_artifact_def Let_def empty_results_def)
qed

theorem unrecognized_status_in_no_list_witness:
  "check_source_freshness (\<lambda>v. ''src'') \<lparr>returncode = 0, stdout = [], stderr = []\<rparr>
     (Loaded (JObj [(''results'',
        JArr (map JObj [[(''unique_id'', JStr ''source.raw.listings'')], [(''status'', JStr ''runtime error'')]]))]))
     ''check_source_freshness'' Map.empty =
   (''source_freshness_passed'',
    xcom_push ''check_source_freshness'' ''freshness_results'' (XFreshness empty_results) Map.empty)"
proof -
  have a: "\<forall>d\<in>set [[(''unique_id'', JStr ''source.raw.listings'')], [(''status'', JStr ''runtime error'')]].
             status_of d \<notin> {JStr ''pass'', JStr ''warn'', JStr ''error''}"
    by (simp add: status_of_def dict_get_def)
  have b: "returncode \<lparr>returncode = 0, stdout = [], stderr = []\<rparr> = 0 \<or>
           \<not> py_in ''Runtime Error'' (stderr \<lparr>returncode = 0, stdout = [], stderr = []\<rparr>)"
    by simp
  have c: "dict_get [(''results'',
        JArr (map JObj [[(''unique_id'', JStr ''source.raw.listings'')], [(''status'', JStr ''runtime error'')]]))]
       ''results'' (JArr []) =
      JArr (map JObj [[(''unique_id'', JStr ''source.raw.listings'')], [(''status'', JStr ''runtime error'')]])"
    by (simp add: dict_get_def)
  from unrecognized_status_in_no_list [OF a b c, of "\<lambda>v. ''src''" "''check_source_freshness''" Map.empty]
  show ?thesis by blast
qed

subsection \<open>The join tasks\<close>

lemma ready_nfmos_iff:
  "ready NoneFailedMinOneSuccess ups = Ready \<longleftrightarrow> FAILED \<notin> set ups \<and> SUCCESS \<in> set ups"
  by (simp add: list_ex_iff)

lemma ready_nfmos_skipped_neutral:
  "ready NoneFailedMinOneSuccess (filter (\<lambda>s. \<not> is_skipped s) ups) =
   ready NoneFailedMinOneSuccess ups"
proof -
  have "list_ex (\<lambda>s. s = FAILED) (filter (\<lambda>s. \<not> is_skipped s) ups) = list_ex (\<lambda>s. s = FAILED) ups"
    by (auto simp: list_ex_iff)
  moreover have "list_ex (\<lambda>s. s = SUCCESS) (filter (\<lambda>s. \<not> is_skipped s) ups) = list_ex (\<lambda>s. s = SUCCESS) ups"
    by (auto simp: list_ex_iff)
  ultimately show ?thesis by simp
qed

lemma settle_nfmos_iff:
  "settle NoneFailedMinOneSuccess ups = QUEUED \<longleftrightarrow> FAILED \<notin> set ups \<and> SUCCESS \<in> set ups"
  by (simp add: settle_def list_ex_iff)

lemma joins_wiring:
  "list_all (\<lambda>t. trigger_rule_of t = NoneFailedMinOneSuccess \<and> length (upstream_of t) = 2)
        [''freshness_check_complete'', ''schema_check_complete'', ''late_arrivals_check_complete'']"
  by (simp add: trigger_rule_of_def upstream_of_def edges_def)

text \<open>
  C6. Under \<open>NoneFailedMinOneSuccess\<close> a task is ready exactly when no upstream is FAILED
  and one is SUCCESS; dropping the skipped upstreams changes nothing; the task is queued
  to run under the same condition. Upstreams SUCCESS and SKIPPED\_BRANCH make it run;
  FAILED and SUCCESS, or two SKIPPED\_BRANCH, make it SKIPPED\_UPSTREAM. The three join
  tasks of the DAG carry this rule and have two upstream tasks each.
\<close>

theorem none_failed_min_one_success_ready_iff:
  "(ready NoneFailedMinOneSuccess ups = Ready \<longleftrightarrow> FAILED \<notin> set ups \<and> SUCCESS \<in> set ups)
   \<and> ready NoneFailedMinOneSuccess (filter (\<lambda>s. \<not> is_skipped s) ups) = ready NoneFailedMinOneSuccess ups
   \<and> (settle NoneFailedMinOneSuccess ups = QUEUED \<longleftrightarrow> FAILED \<notin> set ups \<and> SUCCESS \<in> set ups)
   \<and> settle NoneFailedMinOneSuccess [SUCCESS, SKIPPED_BRANCH] = QUEUED
   \<and> settle NoneFailedMinOneSuccess [FAILED, SUCCESS] = SKIPPED_UPSTREAM
   \<and> settle NoneFailedMinOneSuccess [SKIPPED_BRANCH, SKIPPED_BRANCH] = SKIPPED_UPSTREAM
   \<and> list_all (\<lambda>t. trigger_rule_of t = NoneFailedMinOneSuccess \<and> length (upstream_of t) = 2)
        [''freshness_check_complete'', ''schema_check_complete'', ''late_arrivals_check_complete'']"
proof -
  have "settle NoneFailedMinOneSuccess [SUCCESS, SKIPPED_BRANCH] = QUEUED"
    and "settle NoneFailedMinOneSuccess [FAILED, SUCCESS] = SKIPPED_UPSTREAM"
    and "settle NoneFailedMinOneSuccess [SKIPPED_BRANCH, SKIPPED_BRANCH] = SKIPPED_UPSTREAM"
    by (simp_all add: settle_def)
  with ready_nfmos_iff [of ups] ready_nfmos_skipped_neutral [of ups] settle_nfmos_iff [of ups]
    joins_wiring
  show ?thesis by blast
qed

theorem none_failed_min_one_success_ready_iff_witness:
  "ready (trigger_rule_of ''freshness_check_complete'') [SUCCESS, SKIPPED_BRANCH] = Ready
   \<and> ready (trigger_rule_of ''freshness_check_complete'') [SKIPPED_BRANCH, SKIPPED_BRANCH] \<noteq> Ready
   \<and> ready (trigger_rule_of ''freshness_check_complete'') [FAILED, SUCCESS] \<noteq> Ready"
  using none_failed_min_one_success_ready_iff [of "[SUCCESS, SKIPPED_BRANCH]"]
    none_failed_min_one_success_ready_iff [of "[SKIPPED_BRANCH, SKIPPED_BRANCH]"]
    none_failed_min_one_success_ready_iff [of "[FAILED, SUCCESS]"]
  by (simp add: trigger_rule_of_def)

subsection \<open>One branch per decision\<close>

lemma downstream_of_decisions:
  "downstream_of ''check_source_freshness'' =
     [''source_freshness_passed'', ''source_freshness_warning'', ''source_freshness_failed'']"
  "downstream_of ''check_schema_changes'' = [''schema_changed'', ''schema_unchanged'']"
  "downstream_of ''check_late_arrivals'' = [''late_arrivals_detected'', ''late_arrivals_clean'']"
  by (simp_all add: downstream_of_def edges_def)

lemma one_of_three:
  "r \<in> {''source_freshness_passed'', ''source_freshness_warning'', ''source_freshness_failed''} \<Longrightarrow>
     length (followed ''check_source_freshness'' r) = 1 \<and>
     length (skipped ''check_source_freshness'' r) = 2"
  by (auto simp: followed_def skipped_def downstream_of_decisions)

lemma one_of_two_schema:
  "r \<in> {''schema_changed'', ''schema_unchanged''} \<Longrightarrow>
     length (followed ''check_schema_changes'' r) = 1 \<and>
     length (skipped ''check_schema_changes'' r) = 1"
  by (auto simp: followed_def skipped_def downstream_of_decisions)

lemma one_of_two_late:
  "length (followed ''check_late_arrivals'' ''late_arrivals_clean'') = 1 \<and>
   length (skipped ''check_late_arrivals'' ''late_arrivals_clean'') = 1"
  by (simp add: followed_def skipped_def downstream_of_decisions)

lemma followed_freshness:
  "length (followed ''check_source_freshness'' (fst (check_source_freshness f result art ti x))) = 1"
  using one_of_three [OF freshness_branch_cases] by blast

lemma followed_schema:
  "length (followed ''check_schema_changes'' (fst (check_schema_changes result ti x))) = 1"
  using one_of_two_schema [OF schema_branch_cases] by blast

lemma followed_late:
  "check_late_arrivals result ti x = Inr (b, x') \<Longrightarrow> length (followed ''check_late_arrivals'' b) = 1"
  using one_of_two_late by (auto dest!: late_branch_cases)

text \<open>
  C7, as the claim states it, fails: no probe result makes any of the three decisions
  follow more than one of its downstream tasks.
\<close>

theorem no_multi_select_counterexample:
  "\<not> ((\<exists>f result art ti x.
          1 < length (followed ''check_source_freshness'' (fst (check_source_freshness f result art ti x))))
      \<or> (\<exists>result ti x.
          1 < length (followed ''check_schema_changes'' (fst (check_schema_changes result ti x))))
      \<or> (\<exists>result ti x b x'.
          check_late_arrivals result ti x = Inr (b, x') \<and> 1 < length (followed ''check_late_arrivals'' b)))"
  using followed_freshness followed_schema followed_late
  by (metis less_irrefl)

text \<open>
  C7, amended. Every decision follows exactly one of its downstream tasks and skips the
  others: one of three for the freshness decision, one of two for the schema decision
  and, whenever it returns, for the late-arrival decision.
\<close>

theorem decision_selects_one_branch:
  "length (followed ''check_source_freshness'' (fst (check_source_freshness f result art ti x))) = 1
   \<and> length (skipped ''check_source_freshness'' (fst (check_source_freshness f result art ti x))) = 2
   \<and> length (followed ''check_schema_changes'' (fst (check_schema_changes result ti x))) = 1
   \<and> length (skipped ''check_schema_changes'' (fst (check_schema_changes result ti x))) = 1
   \<and> (case check_late_arrivals result ti x of
         Inl e \<Rightarrow> True
       | Inr r \<Rightarrow> length (followed ''check_late_arrivals'' (fst r)) = 1
                 \<and> length (skipped ''check_late_arrivals'' (fst r)) = 1)"
proof -
  have c: "(case check_late_arrivals result ti x of
         Inl e \<Rightarrow> True
       | Inr r \<Rightarrow> length (followed ''check_late_arrivals'' (fst r)) = 1
                 \<and> length (skipped ''check_late_arrivals'' (fst r)) = 1)"
    using check_late_arrivals_cases [of result ti x] one_of_two_late
    by (auto simp: late_arrivals_branch_def Let_def)
  from c one_of_three [OF freshness_branch_cases, of f result art ti x]
    one_of_two_schema [OF schema_branch_cases, of result ti x]
  show ?thesis by simp
qed

theorem decision_selects_one_branch_witness:
  "followed ''check_source_freshness''
     (fst (check_source_freshness (\<lambda>v. ''src'') \<lparr>returncode = 0, stdout = [], stderr = []\<rparr>
        (Loaded (JObj [(''results'',
           JArr [JObj [(''status'', JStr ''warn'')], JObj [(''status'', JStr ''pass'')]])]))
        ''check_source_freshness'' Map.empty)) = [''source_freshness_warning'']
   \<and> skipped ''check_source_freshness''
     (fst (check_source_freshness (\<lambda>v. ''src'') \<lparr>returncode = 0, stdout = [], stderr = []\<rparr>
        (Loaded (JObj [(''results'',
           JArr [JObj [(''status'', JStr ''warn'')], JObj [(''status'', JStr ''pass'')]])]))
        ''check_source_freshness'' Map.empty)) = [''source_freshness_passed'', ''source_freshness_failed'']"
  using decision_selects_one_branch [of "\<lambda>v. ''src''" "\<lparr>returncode = 0, stdout = [], stderr = []\<rparr>"
      "Loaded (JObj [(''results'',
           JArr [JObj [(''status'', JStr ''warn'')], JObj [(''status'', JStr ''pass'')]])])"
      "''check_source_freshness''" Map.empty]
  by (simp add: check_source_freshness_def read_artifact_def source_step_def status_of_def
      dict_get_def empty_results_def followed_def skipped_def downstream_of_decisions Let_def)

subsection \<open>Evaluating a decision again\<close>

lemma schema_rerun:
  "check_schema_changes result ti (snd (check_schema_changes result ti x)) =
   check_schema_changes result ti x"
  by (simp add: check_schema_changes_def Let_def xcom_push_twice)

lemma late_branch_rerun:
  "late_arrivals_branch n ti (snd (late_arrivals_branch n ti x)) = late_arrivals_branch n ti x"
  by (auto simp: late_arrivals_branch_def Let_def xcom_push_def fun_upd_twist)

lemma freshness_rerun:
  "check_source_freshness f result art ti (snd (check_source_freshness f result art ti x)) =
   check_source_freshness f result art ti x"
  by (simp add: check_source_freshness_def Let_def xcom_push_twice)

text \<open>
  C8. Each of the three decisions gives the same result when it is evaluated again on the
  same probe result: its branch and the values it pushes do not depend on the store it
  starts from (\<open>x\<close> or \<open>x'\<close>), and evaluated on the store its first evaluation left, it
  returns the same branch and leaves the store as it is. Where \<open>check_late_arrivals\<close>
  raises, it raises again.
\<close>

theorem decisions_idempotent:
  "check_schema_changes result ti (snd (check_schema_changes result ti x)) =
     check_schema_changes result ti x
   \<and> fst (check_schema_changes result ti x') = fst (check_schema_changes result ti x)
   \<and> xcom_pull ''refresh_strategy'' ti (snd (check_schema_changes result ti x')) =
       xcom_pull ''refresh_strategy'' ti (snd (check_schema_changes result ti x))
   \<and> (case check_late_arrivals result ti x of
         Inl e \<Rightarrow> True
       | Inr r \<Rightarrow> check_late_arrivals result ti (snd r) = Inr r)
   \<and> map_sum id fst (check_late_arrivals result ti x') =
       map_sum id fst (check_late_arrivals result ti x)
   \<and> map_sum id (\<lambda>r. (xcom_pull ''late_arrivals_detected'' ti (snd r),
                       xcom_pull ''late_arrival_count'' ti (snd r)))
         (check_late_arrivals result ti x') =
       map_sum id (\<lambda>r. (xcom_pull ''late_arrivals_detected'' ti (snd r),
                       xcom_pull ''late_arrival_count'' ti (snd r)))
         (check_late_arrivals result ti x)
   \<and> check_source_freshness f result art ti (snd (check_source_freshness f result art ti x)) =
       check_source_freshness f result art ti x
   \<and> fst (check_source_freshness f result art ti x') = fst (check_source_freshness f result art ti x)
   \<and> xcom_pull ''freshness_results'' ti (snd (check_source_freshness f result art ti x')) =
       xcom_pull ''freshness_results'' ti (snd (check_source_freshness f result art ti x))"
proof -
  have late1: "(case check_late_arrivals result ti x of
         Inl e \<Rightarrow> True
       | Inr r \<Rightarrow> check_late_arrivals result ti (snd r) = Inr r)"
    by (cases "parse_late_count (stdout result @ stderr result)")
       (simp_all add: check_late_arrivals_def Let_def late_branch_rerun)
  have late2: "map_sum id fst (check_late_arrivals result ti x') =
       map_sum id fst (check_late_arrivals result ti x)"
    by (cases "parse_late_count (stdout result @ stderr result)")
       (simp_all add: check_late_arrivals_def Let_def late_arrivals_branch_def)
  have late3: "map_sum id (\<lambda>r. (xcom_pull ''late_arrivals_detected'' ti (snd r),
                       xcom_pull ''late_arrival_count'' ti (snd r)))
         (check_late_arrivals result ti x') =
       map_sum id (\<lambda>r. (xcom_pull ''late_arrivals_detected'' ti (snd r),
                       xcom_pull ''late_arrival_count'' ti (snd r)))
         (check_late_arrivals result ti x)"
    by (cases "parse_late_count (stdout result @ stderr result)")
       (simp_all add: check_late_arrivals_def Let_def late_arrivals_branch_def xcom_pull_push)
  have fr1: "fst (check_source_freshness f result art ti x') =
       fst (check_source_freshness f result art ti x)"
    by (simp add: check_source_freshness_def Let_def)
  have fr2: "xcom_pull ''freshness_results'' ti (snd (check_source_freshness f result art ti x')) =
       xcom_pull ''freshness_results'' ti (snd (check_source_freshness f result art ti x))"
    by (simp add: check_source_freshness_def Let_def xcom_pull_push)
  have sc1: "fst (check_schema_changes result ti x') = fst (check_schema_changes result ti x)"
    by (simp add: check_schema_changes_def Let_def)
  have sc2: "xcom_pull ''refresh_strategy'' ti (snd (check_schema_changes result ti x')) =
       xcom_pull ''refresh_strategy'' ti (snd (check_schema_changes result ti x))"
    by (simp add: check_schema_changes_def Let_def xcom_pull_push)
  from late1 late2 late3 fr1 fr2 sc1 sc2
    schema_rerun [of result ti x] freshness_rerun [of f result art ti x]
  show ?thesis by simp
qed

theorem decisions_idempotent_witness:
  "check_schema_changes \<lparr>returncode = 0, stdout = ''SCHEMA CHANGE DETECTED'', stderr = []\<rparr>
     ''check_schema_changes''
     (snd (check_schema_changes \<lparr>returncode = 0, stdout = ''SCHEMA CHANGE DETECTED'', stderr = []\<rparr>
        ''check_schema_changes'' Map.empty)) =
   (''schema_changed'',
    [(''check_schema_changes'', ''refresh_strategy'') \<mapsto> XStr ''full_refresh''])"
  using decisions_idempotent
    [of "\<lparr>returncode = 0, stdout = ''SCHEMA CHANGE DETECTED'', stderr = []\<rparr>"
        "''check_schema_changes''" Map.empty Map.empty "\<lambda>v. ''src''" NoFile]
  by (simp add: check_schema_changes_def xcom_push_def)

end
